theory Spec2Isabelle
  imports Main "HOL-Library.Multiset"
begin

section \<open>Presence session tracker: data model\<close>

text \<open>
  Timestamps are the timezone-aware \<^verbatim>\<open>datetime\<close> values of the source, read as an
  integer number of microseconds on one absolute time line; a \<^verbatim>\<open>timedelta\<close> is the
  integer difference of two of them. The store keeps \<^verbatim>\<open>isoformat()\<close> text and reads it
  back with \<^verbatim>\<open>fromisoformat\<close>, which returns the same instant.
\<close>

type_synonym timestamp = int
type_synonym timedelta = int

text \<open>\<^verbatim>\<open>database.PresenceSession\<close>: one row of the table \<^verbatim>\<open>presence_sessions\<close>.\<close>

record PresenceSession =
  row_id :: int
  guild_id :: int
  user_id :: int
  status :: string
  started_at :: timestamp
  ended_at :: "timestamp option"

text \<open>\<^verbatim>\<open>tracker.ActiveSession\<close>: the in-memory session that has not yet closed.\<close>

record ActiveSession =
  active_row_id :: int
  active_started_at :: timestamp
  active_status :: string

text \<open>
  The SQLite file behind \<^verbatim>\<open>Database\<close>. \<open>presence_sessions\<close> is \<open>None\<close> while the table
  does not exist and otherwise holds its rows in insertion order; \<open>sqlite_sequence\<close> is the
  largest row id the \<^verbatim>\<open>AUTOINCREMENT\<close> column has handed out.
\<close>

record Database =
  presence_sessions :: "PresenceSession list option"
  sqlite_sequence :: int

text \<open>\<^verbatim>\<open>PresenceTracker\<close>: the database handle and the map \<^verbatim>\<open>_active_sessions\<close>.\<close>

record PresenceTracker =
  database :: Database
  active_sessions :: "(int \<times> int) \<rightharpoonup> ActiveSession"

text \<open>Every failure of a store call reaches the caller as one exception of \<^verbatim>\<open>sqlite3\<close>.\<close>

datatype error = StoreUnavailable

text \<open>
  The \<^verbatim>\<open>status: object\<close> argument: \<^verbatim>\<open>None\<close>, a member of \<^verbatim>\<open>discord.Status\<close> (carrying its
  \<^verbatim>\<open>.value\<close>), or any other object (carrying its \<^verbatim>\<open>str()\<close>).
\<close>

datatype status_obj = PyNone | DiscordStatus string | PyObject string

text \<open>
  The outcomes of the store calls an operation is going to make, in call order:
  \<open>True\<close> when the call commits, \<open>False\<close> when it raises. Calls beyond the end of the
  list commit.
\<close>

type_synonym io = "bool list"

definition io_ok :: "io \<Rightarrow> bool" where
  "io_ok io = (case io of [] \<Rightarrow> True | b # _ \<Rightarrow> b)"

definition io_rest :: "io \<Rightarrow> io" where
  "io_rest io = (case io of [] \<Rightarrow> [] | _ # bs \<Rightarrow> bs)"

text \<open>
  \<^verbatim>\<open>timestamp or datetime.now(tz=UTC)\<close>: a datetime is always truthy, so the clock is read
  only for \<^verbatim>\<open>None\<close>. \<open>clock\<close> is what \<^verbatim>\<open>datetime.now\<close> would return.
\<close>

definition or_now :: "timestamp option \<Rightarrow> timestamp \<Rightarrow> timestamp" where
  "or_now arg clock = (case arg of None \<Rightarrow> clock | Some ts \<Rightarrow> ts)"

section \<open>Status normalisation\<close>

definition TRACKED_STATUSES :: "string list" where
  "TRACKED_STATUSES = [''online'', ''idle'', ''dnd'']"

text \<open>
  \<^verbatim>\<open>str.lower\<close> on the ASCII letters. No character outside ASCII lowers to a string made
  of the letters of the three tracked labels, so membership in the tracked set is the same
  as under the full Unicode mapping.
\<close>

definition lower_char :: "char \<Rightarrow> char" where
  "lower_char c =
     (if 65 \<le> (of_char c :: nat) \<and> (of_char c :: nat) \<le> 90
      then char_of ((of_char c :: nat) + 32) else c)"

definition lower :: "string \<Rightarrow> string" where
  "lower s = map lower_char s"

definition normalize_status :: "status_obj \<Rightarrow> string" where
  "normalize_status st =
     (case st of
        PyNone \<Rightarrow> ''offline''
      | DiscordStatus v \<Rightarrow> v
      | PyObject s \<Rightarrow> lower s)"

definition is_tracked :: "string \<Rightarrow> bool" where
  "is_tracked st = (st \<in> set TRACKED_STATUSES)"

definition normalize_statuses :: "status_obj list option \<Rightarrow> string list" where
  "normalize_statuses statuses =
     (case statuses of
        None \<Rightarrow> TRACKED_STATUSES
      | Some sts \<Rightarrow>
          (let normalized = map normalize_status sts;
               kept = filter is_tracked normalized
           in if kept = [] then TRACKED_STATUSES else kept))"

section \<open>Duration formatter\<close>











section \<open>Session store\<close>

text \<open>
  Each store call takes the outcome \<open>ok\<close> the environment gives it. A call that raises
  leaves the file as it was (the statement runs inside \<^verbatim>\<open>with conn\<close> and is committed at
  its end); a call on a file without the table raises as well.
\<close>

definition initialize :: "bool \<Rightarrow> Database \<Rightarrow> error + Database" where
  "initialize ok db =
     (if \<not> ok then Inl StoreUnavailable
      else (case presence_sessions db of
              None \<Rightarrow> Inr (db\<lparr>presence_sessions := Some []\<rparr>)
            | Some rows \<Rightarrow> Inr db))"

definition close_row :: "timestamp \<Rightarrow> PresenceSession \<Rightarrow> PresenceSession" where
  "close_row closed_at r = (if ended_at r = None then r\<lparr>ended_at := Some closed_at\<rparr> else r)"

definition close_open_sessions :: "bool \<Rightarrow> Database \<Rightarrow> timestamp \<Rightarrow> error + Database" where
  "close_open_sessions ok db closed_at =
     (if \<not> ok then Inl StoreUnavailable
      else (case presence_sessions db of
              None \<Rightarrow> Inl StoreUnavailable
            | Some rows \<Rightarrow> Inr (db\<lparr>presence_sessions := Some (map (close_row closed_at) rows)\<rparr>)))"

text \<open>
  \<^verbatim>\<open>INTEGER PRIMARY KEY AUTOINCREMENT\<close>: the new row id is one more than the largest id
  that has ever been in the table.
\<close>

primrec max_rowid :: "PresenceSession list \<Rightarrow> int" where
  "max_rowid [] = 0"
| "max_rowid (r # rs) = max (row_id r) (max_rowid rs)"

definition insert_session ::
  "bool \<Rightarrow> Database \<Rightarrow> int \<Rightarrow> int \<Rightarrow> string \<Rightarrow> timestamp \<Rightarrow> error + (int \<times> Database)" where
  "insert_session ok db guild user st started =
     (if \<not> ok then Inl StoreUnavailable
      else (case presence_sessions db of
              None \<Rightarrow> Inl StoreUnavailable
            | Some rows \<Rightarrow>
                (let lastrowid = max (sqlite_sequence db) (max_rowid rows) + 1;
                     row = \<lparr>row_id = lastrowid, guild_id = guild, user_id = user, status = st,
                            started_at = started, ended_at = None\<rparr>
                 in Inr (lastrowid,
                         db\<lparr>presence_sessions := Some (rows @ [row]), sqlite_sequence := lastrowid\<rparr>))))"

definition complete_row :: "int \<Rightarrow> timestamp \<Rightarrow> PresenceSession \<Rightarrow> PresenceSession" where
  "complete_row rid ended r = (if row_id r = rid then r\<lparr>ended_at := Some ended\<rparr> else r)"

definition complete_session :: "bool \<Rightarrow> Database \<Rightarrow> int \<Rightarrow> timestamp \<Rightarrow> error + Database" where
  "complete_session ok db rid ended =
     (if \<not> ok then Inl StoreUnavailable
      else (case presence_sessions db of
              None \<Rightarrow> Inl StoreUnavailable
            | Some rows \<Rightarrow> Inr (db\<lparr>presence_sessions := Some (map (complete_row rid ended) rows)\<rparr>)))"

text \<open>
  The \<^verbatim>\<open>WHERE\<close> clause of the fetch, then \<^verbatim>\<open>ORDER BY started_at ASC\<close>. The column holds
  ISO-8601 text; for the UTC timestamps the tracker writes, the order of the text is the order
  of the instants. Rows of equal \<open>started_at\<close> keep their insertion order.
\<close>

definition selected :: "int \<Rightarrow> int \<Rightarrow> string list \<Rightarrow> PresenceSession \<Rightarrow> bool" where
  "selected guild user statuses r =
     (guild_id r = guild \<and> user_id r = user \<and> status r \<in> set statuses)"

definition fetch_sessions ::
  "bool \<Rightarrow> Database \<Rightarrow> int \<Rightarrow> int \<Rightarrow> string list \<Rightarrow> error + PresenceSession list" where
  "fetch_sessions ok db guild user statuses =
     (if \<not> ok then Inl StoreUnavailable
      else (case presence_sessions db of
              None \<Rightarrow> Inl StoreUnavailable
            | Some rows \<Rightarrow> Inr (sort_key started_at (filter (selected guild user statuses) rows))))"

section \<open>Presence tracker\<close>

text \<open>\<^verbatim>\<open>PresenceTracker.__init__\<close>.\<close>

definition new_tracker :: "Database \<Rightarrow> PresenceTracker" where
  "new_tracker db = \<lparr>database = db, active_sessions = Map.empty\<rparr>"

text \<open>
  \<^verbatim>\<open>PresenceTracker.setup\<close> is \<open>tracker_setup\<close> below. Operations of the tracker return what the call did (\<open>Inr ()\<close> when it returned, \<open>Inl e\<close>
  when it raised) together with the tracker as the call left it: an exception does not undo
  the assignments made before it.
\<close>

definition tracker_setup :: "io \<Rightarrow> timestamp \<Rightarrow> PresenceTracker \<Rightarrow> (error + unit) \<times> PresenceTracker" where
  "tracker_setup io clock t =
     (let now = clock in
      case initialize (io_ok io) (database t) of
        Inl e \<Rightarrow> (Inl e, t)
      | Inr db1 \<Rightarrow>
          (case close_open_sessions (io_ok (io_rest io)) db1 now of
             Inl e \<Rightarrow> (Inl e, t\<lparr>database := db1\<rparr>)
           | Inr db2 \<Rightarrow> (Inr (), t\<lparr>database := db2\<rparr>)))"

text \<open>\<^verbatim>\<open>_close_session\<close>: the entry is popped first, the row is completed afterwards.\<close>

definition close_session ::
  "bool \<Rightarrow> int \<times> int \<Rightarrow> timestamp \<Rightarrow> PresenceTracker \<Rightarrow> (error + unit) \<times> PresenceTracker" where
  "close_session ok key ended t =
     (case active_sessions t key of
        None \<Rightarrow> (Inr (), t)
      | Some session \<Rightarrow>
          (let t1 = t\<lparr>active_sessions := (active_sessions t)(key := None)\<rparr> in
           case complete_session ok (database t1) (active_row_id session) ended of
             Inl e \<Rightarrow> (Inl e, t1)
           | Inr db \<Rightarrow> (Inr (), t1\<lparr>database := db\<rparr>)))"

text \<open>
  The two statements that open a session, written once in \<^verbatim>\<open>bootstrap_member\<close> and
  twice in \<^verbatim>\<open>handle_presence_update\<close> (once per branch): the row is inserted first, the
  entry is stored afterwards.
\<close>

definition open_session ::
  "bool \<Rightarrow> PresenceTracker \<Rightarrow> int \<Rightarrow> int \<Rightarrow> string \<Rightarrow> timestamp \<Rightarrow> (error + unit) \<times> PresenceTracker" where
  "open_session ok t guild user after ts =
     (case insert_session ok (database t) guild user after ts of
        Inl e \<Rightarrow> (Inl e, t)
      | Inr (rid, db) \<Rightarrow>
          (Inr (),
           t\<lparr>database := db,
             active_sessions := (active_sessions t)((guild, user) \<mapsto>
               \<lparr>active_row_id = rid, active_started_at = ts, active_status = after\<rparr>)\<rparr>))"

text \<open>
  \<^verbatim>\<open>bootstrap_member\<close>: \<^verbatim>\<open>key in self._active_sessions\<close> is the test for an entry.
\<close>

definition bootstrap_member ::
  "io \<Rightarrow> timestamp \<Rightarrow> PresenceTracker \<Rightarrow> int \<Rightarrow> int \<Rightarrow> status_obj \<Rightarrow>
   (error + unit) \<times> PresenceTracker" where
  "bootstrap_member io clock t guild user status_arg =
     (let normalized = normalize_status status_arg in
      if \<not> is_tracked normalized then (Inr (), t)
      else
        (let key = (guild, user) in
         if key \<in> dom (active_sessions t) then (Inr (), t)
         else
           (let started = clock
            in open_session (io_ok io) t guild user normalized started)))"

text \<open>
  \<^verbatim>\<open>handle_presence_update\<close>. An \<^verbatim>\<open>ActiveSession\<close> is always truthy, so \<^verbatim>\<open>active\<close> in a condition tests for
  \<^verbatim>\<open>None\<close>. The locals \<^verbatim>\<open>before\<close> and \<^verbatim>\<open>after\<close> are \<open>before_norm\<close> and \<open>after_norm\<close>.
\<close>

definition handle_presence_update ::
  "io \<Rightarrow> timestamp \<Rightarrow> PresenceTracker \<Rightarrow> int \<Rightarrow> int \<Rightarrow> status_obj \<Rightarrow> status_obj \<Rightarrow>
   timestamp option \<Rightarrow> (error + unit) \<times> PresenceTracker" where
  "handle_presence_update io clock t guild user before_status after_status timestamp_arg =
     (let timestamp = or_now timestamp_arg clock;
          before_norm = normalize_status before_status;
          after_norm = normalize_status after_status;
          key = (guild, user);
          active = active_sessions t key;
          before_tracked = is_tracked before_norm;
          after_tracked = is_tracked after_norm;
          closes = (before_tracked \<and>
                    (case active of
                       None \<Rightarrow> False
                     | Some a \<Rightarrow> \<not> after_tracked \<or> after_norm \<noteq> active_status a));
          step = (if closes then close_session (io_ok io) key timestamp t else (Inr (), t));
          active1 = (if closes then None else active);
          io1 = (if closes then io_rest io else io)
      in case fst step of
           Inl e \<Rightarrow> (Inl e, snd step)
         | Inr _ \<Rightarrow>
             (if after_tracked then
                (case active1 of
                   None \<Rightarrow> open_session (io_ok io1) (snd step) guild user after_norm timestamp
                 | Some a \<Rightarrow>
                     if active_status a \<noteq> after_norm
                     then open_session (io_ok io1) (snd step) guild user after_norm timestamp
                     else (Inr (), snd step))
              else
                (case active1 of
                   None \<Rightarrow> (Inr (), snd step)
                 | Some a \<Rightarrow> close_session (io_ok io1) key timestamp (snd step))))"

text \<open>
  \<^verbatim>\<open>get_total_duration\<close>: one fetch, the loop over the fetched rows, then the in-memory
  session of the key.
\<close>

definition session_span :: "timestamp \<Rightarrow> PresenceSession \<Rightarrow> timedelta" where
  "session_span now session =
     (case ended_at session of None \<Rightarrow> now | Some e \<Rightarrow> e) - started_at session"

definition get_total_duration ::
  "bool \<Rightarrow> timestamp \<Rightarrow> PresenceTracker \<Rightarrow> int \<Rightarrow> int \<Rightarrow> status_obj list option \<Rightarrow>
   timestamp option \<Rightarrow> error + timedelta" where
  "get_total_duration ok clock t guild user statuses now_arg =
     (let now = or_now now_arg clock;
          statuses_tuple = normalize_statuses statuses
      in case fetch_sessions ok (database t) guild user statuses_tuple of
           Inl e \<Rightarrow> Inl e
         | Inr sessions \<Rightarrow>
             (let total = fold (\<lambda>session total. total + session_span now session) sessions 0;
                  key = (guild, user);
                  active = active_sessions t key
              in case active of
                   None \<Rightarrow> Inr total
                 | Some a \<Rightarrow>
                     if active_status a \<in> set statuses_tuple
                     then Inr (total + (now - active_started_at a))
                     else Inr total))"

text \<open>The rows of a key that are open in the store.\<close>

definition table :: "Database \<Rightarrow> PresenceSession list" where
  "table db = (case presence_sessions db of None \<Rightarrow> [] | Some rows \<Rightarrow> rows)"

definition open_rows :: "Database \<Rightarrow> int \<Rightarrow> int \<Rightarrow> PresenceSession list" where
  "open_rows db guild user =
     filter (\<lambda>r. guild_id r = guild \<and> user_id r = user \<and> ended_at r = None) (table db)"

text \<open>A fresh database file, and the tracker built on it once \<^verbatim>\<open>setup\<close> has run.\<close>

definition empty_database :: Database where
  "empty_database = \<lparr>presence_sessions = None, sqlite_sequence = 0\<rparr>"

section \<open>Auxiliary notions for the properties\<close>

text \<open>The length of a closed session; an open one has none yet.\<close>

definition closed_span :: "PresenceSession \<Rightarrow> timedelta" where
  "closed_span r = (case ended_at r of None \<Rightarrow> 0 | Some e \<Rightarrow> e - started_at r)"

text \<open>
  The tracker with every session of a status outside \<open>S\<close> taken away, from the store and
  from the in-memory map alike.
\<close>

definition only_statuses :: "string set \<Rightarrow> PresenceTracker \<Rightarrow> PresenceTracker" where
  "only_statuses S t =
     t\<lparr>database := (database t)\<lparr>presence_sessions :=
            map_option (filter (\<lambda>r. status r \<in> S)) (presence_sessions (database t))\<rparr>,
       active_sessions :=
         (\<lambda>key. case active_sessions t key of
                   None \<Rightarrow> None
                 | Some a \<Rightarrow> if active_status a \<in> S then Some a else None)\<rparr>"

text \<open>
  What the gateway delivers to the tracker: a member snapshot or a presence change, each
  with the outcomes of its store calls and the reading of the clock. \<open>run\<close> feeds a
  sequence of them to the tracker; a call that raises is dropped by the caller and the next
  event is handled on the tracker as the raising call left it.
\<close>

datatype event =
  Bootstrap int int status_obj
| Update int int status_obj status_obj "timestamp option"

definition deliver ::
  "io \<times> timestamp \<times> event \<Rightarrow> PresenceTracker \<Rightarrow> (error + unit) \<times> PresenceTracker" where
  "deliver d t =
     (case d of
        (io, clock, Bootstrap guild user st) \<Rightarrow> bootstrap_member io clock t guild user st
      | (io, clock, Update guild user before_status after_status ts) \<Rightarrow>
          handle_presence_update io clock t guild user before_status after_status ts)"

fun run :: "(io \<times> timestamp \<times> event) list \<Rightarrow> PresenceTracker \<Rightarrow> PresenceTracker" where
  "run [] t = t"
| "run (d # ds) t = run ds (snd (deliver d t))"

text \<open>The tracker with the rows of its store replaced.\<close>

definition with_rows :: "PresenceSession list \<Rightarrow> PresenceTracker \<Rightarrow> PresenceTracker" where
  "with_rows rows t = t\<lparr>database := (database t)\<lparr>presence_sessions := Some rows\<rparr>\<rparr>"

text \<open>
  Row \<open>r\<close> stands in the store and no in-memory session refers to its id.
\<close>

definition keeps_row :: "PresenceSession \<Rightarrow> PresenceTracker \<Rightarrow> bool" where
  "keeps_row r t =
     ((\<exists>xs ys. presence_sessions (database t) = Some (xs @ r # ys)) \<and>
      (\<forall>key a. active_sessions t key = Some a \<longrightarrow> active_row_id a \<noteq> row_id r))"

text \<open>
  Runs used below. \<open>booted\<close>: a tracker on a fresh file after \<^verbatim>\<open>setup()\<close>.
  \<open>member_online\<close>: then member 42 of guild 1 goes from offline to online at time 100.
  \<open>member_idle\<close>: then from online to idle at 7300. \<open>member_offline\<close>: then from idle
  to offline at 10900. \<open>missed_before\<close>: after \<open>member_online\<close>, an update from offline to idle
  at 200 (the event that left the online status was never delivered).
  \<open>failed_close\<close>: after \<open>member_online\<close>, an update from online to offline at 200 whose
  store call raises.
\<close>

definition booted :: PresenceTracker where
  "booted = snd (tracker_setup [] 0 (new_tracker empty_database))"

definition member_online :: PresenceTracker where
  "member_online =
     snd (handle_presence_update [] 0 booted 1 42
            (PyObject ''offline'') (PyObject ''online'') (Some 100))"

definition member_idle :: PresenceTracker where
  "member_idle =
     snd (handle_presence_update [] 0 member_online 1 42
            (PyObject ''online'') (PyObject ''idle'') (Some 7300))"

definition member_offline :: PresenceTracker where
  "member_offline =
     snd (handle_presence_update [] 0 member_idle 1 42
            (PyObject ''idle'') (PyObject ''offline'') (Some 10900))"

definition missed_before :: "(error + unit) \<times> PresenceTracker" where
  "missed_before =
     handle_presence_update [] 0 member_online 1 42
       (PyObject ''offline'') (PyObject ''idle'') (Some 200)"

definition failed_close :: "(error + unit) \<times> PresenceTracker" where
  "failed_close =
     handle_presence_update [False] 0 member_online 1 42
       (PyObject ''online'') (PyObject ''offline'') (Some 200)"

section \<open>Evaluation of the runs\<close>

lemmas store_defs =
  initialize_def close_open_sessions_def insert_session_def complete_session_def
  fetch_sessions_def close_row_def complete_row_def

lemmas tracker_defs =
  tracker_setup_def close_session_def open_session_def handle_presence_update_def
  new_tracker_def empty_database_def io_ok_def io_rest_def or_now_def Let_def

lemma lower_labels:
  "lower ''offline'' = ''offline''"
  "lower ''online'' = ''online''"
  "lower ''idle'' = ''idle''"
  "lower ''streaming'' = ''streaming''"
  by (simp_all add: lower_def lower_char_def)

lemma normalize_labels:
  "normalize_status (PyObject ''offline'') = ''offline''"
  "normalize_status (PyObject ''online'') = ''online''"
  "normalize_status (PyObject ''idle'') = ''idle''"
  "normalize_status (PyObject ''streaming'') = ''streaming''"
  by (simp_all add: normalize_status_def lower_labels)

lemma tracked_labels:
  "\<not> is_tracked ''offline''"
  "\<not> is_tracked ''streaming''"
  "is_tracked ''online''"
  "is_tracked ''idle''"
  "is_tracked ''dnd''"
  by (simp_all add: is_tracked_def TRACKED_STATUSES_def)

lemma booted_eq:
  "booted =
     \<lparr>database = \<lparr>presence_sessions = Some [], sqlite_sequence = 0\<rparr>,
      active_sessions = Map.empty\<rparr>"
  by (simp add: booted_def tracker_defs store_defs)

lemma member_online_run:
  "handle_presence_update [] 0 booted 1 42 (PyObject ''offline'') (PyObject ''online'') (Some 100) =
     (Inr (),
      \<lparr>database =
         \<lparr>presence_sessions =
            Some [\<lparr>row_id = 1, guild_id = 1, user_id = 42, status = ''online'',
                   started_at = 100, ended_at = None\<rparr>],
          sqlite_sequence = 1\<rparr>,
       active_sessions =
         [(1, 42) \<mapsto> \<lparr>active_row_id = 1, active_started_at = 100, active_status = ''online''\<rparr>]\<rparr>)"
  by (simp add: booted_eq tracker_defs store_defs normalize_labels tracked_labels)

lemma member_online_eq:
  "member_online =
     \<lparr>database =
        \<lparr>presence_sessions =
           Some [\<lparr>row_id = 1, guild_id = 1, user_id = 42, status = ''online'',
                  started_at = 100, ended_at = None\<rparr>],
         sqlite_sequence = 1\<rparr>,
      active_sessions =
        [(1, 42) \<mapsto> \<lparr>active_row_id = 1, active_started_at = 100, active_status = ''online''\<rparr>]\<rparr>"
  by (simp add: member_online_def member_online_run)

lemma member_idle_run:
  "handle_presence_update [] 0 member_online 1 42 (PyObject ''online'') (PyObject ''idle'') (Some 7300) =
     (Inr (),
      \<lparr>database =
         \<lparr>presence_sessions =
            Some [\<lparr>row_id = 1, guild_id = 1, user_id = 42, status = ''online'',
                   started_at = 100, ended_at = Some 7300\<rparr>,
                  \<lparr>row_id = 2, guild_id = 1, user_id = 42, status = ''idle'',
                   started_at = 7300, ended_at = None\<rparr>],
          sqlite_sequence = 2\<rparr>,
       active_sessions =
         [(1, 42) \<mapsto> \<lparr>active_row_id = 2, active_started_at = 7300, active_status = ''idle''\<rparr>]\<rparr>)"
  by (simp add: member_online_eq tracker_defs store_defs normalize_labels tracked_labels)

lemma member_idle_eq:
  "member_idle =
     \<lparr>database =
        \<lparr>presence_sessions =
           Some [\<lparr>row_id = 1, guild_id = 1, user_id = 42, status = ''online'',
                  started_at = 100, ended_at = Some 7300\<rparr>,
                 \<lparr>row_id = 2, guild_id = 1, user_id = 42, status = ''idle'',
                  started_at = 7300, ended_at = None\<rparr>],
         sqlite_sequence = 2\<rparr>,
      active_sessions =
        [(1, 42) \<mapsto> \<lparr>active_row_id = 2, active_started_at = 7300, active_status = ''idle''\<rparr>]\<rparr>"
  by (simp add: member_idle_def member_idle_run)

lemma member_offline_run:
  "handle_presence_update [] 0 member_idle 1 42 (PyObject ''idle'') (PyObject ''offline'') (Some 10900) =
     (Inr (),
      \<lparr>database =
         \<lparr>presence_sessions =
            Some [\<lparr>row_id = 1, guild_id = 1, user_id = 42, status = ''online'',
                   started_at = 100, ended_at = Some 7300\<rparr>,
                  \<lparr>row_id = 2, guild_id = 1, user_id = 42, status = ''idle'',
                   started_at = 7300, ended_at = Some 10900\<rparr>],
          sqlite_sequence = 2\<rparr>,
       active_sessions = Map.empty\<rparr>)"
  by (simp add: member_idle_eq tracker_defs store_defs normalize_labels tracked_labels)

lemma member_offline_eq:
  "member_offline =
     \<lparr>database =
        \<lparr>presence_sessions =
           Some [\<lparr>row_id = 1, guild_id = 1, user_id = 42, status = ''online'',
                  started_at = 100, ended_at = Some 7300\<rparr>,
                 \<lparr>row_id = 2, guild_id = 1, user_id = 42, status = ''idle'',
                  started_at = 7300, ended_at = Some 10900\<rparr>],
         sqlite_sequence = 2\<rparr>,
      active_sessions = Map.empty\<rparr>"
  by (simp add: member_offline_def member_offline_run)

lemma missed_before_eq:
  "missed_before =
     (Inr (),
      \<lparr>database =
         \<lparr>presence_sessions =
            Some [\<lparr>row_id = 1, guild_id = 1, user_id = 42, status = ''online'',
                   started_at = 100, ended_at = None\<rparr>,
                  \<lparr>row_id = 2, guild_id = 1, user_id = 42, status = ''idle'',
                   started_at = 200, ended_at = None\<rparr>],
          sqlite_sequence = 2\<rparr>,
       active_sessions =
         [(1, 42) \<mapsto> \<lparr>active_row_id = 2, active_started_at = 200, active_status = ''idle''\<rparr>]\<rparr>)"
  by (simp add: missed_before_def member_online_eq tracker_defs store_defs normalize_labels
      tracked_labels)

lemma failed_close_eq:
  "failed_close =
     (Inl StoreUnavailable,
      \<lparr>database =
         \<lparr>presence_sessions =
            Some [\<lparr>row_id = 1, guild_id = 1, user_id = 42, status = ''online'',
                   started_at = 100, ended_at = None\<rparr>],
          sqlite_sequence = 1\<rparr>,
       active_sessions = Map.empty\<rparr>)"
  by (simp add: failed_close_def member_online_eq tracker_defs store_defs normalize_labels
      tracked_labels)

section \<open>Facts about the operations\<close>

lemma fold_span:
  "fold (\<lambda>session total. total + f session) xs (a::int) = a + sum_list (map f xs)"
  by (induction xs arbitrary: a) simp_all

lemma sum_list_sort_key:
  "sum_list (map f (sort_key k xs)) = (sum_list (map f xs) :: int)"
proof -
  have "mset (map f (sort_key k xs)) = mset (map f xs)"
    by simp
  then have "sum_mset (mset (map f (sort_key k xs))) = sum_mset (mset (map f xs))"
    by (rule arg_cong)
  then show ?thesis
    by (simp only: sum_mset_sum_list)
qed

text \<open>What a query returns when the store answers: the rows of the key, then the map.\<close>

lemma get_total_duration_rows:
  assumes "presence_sessions (database t) = Some rows"
  shows "get_total_duration True clock t g u statuses now_arg =
    Inr (sum_list (map (session_span (or_now now_arg clock))
                    (filter (selected g u (normalize_statuses statuses)) rows)) +
         (case active_sessions t (g, u) of
            None \<Rightarrow> 0
          | Some a \<Rightarrow> if active_status a \<in> set (normalize_statuses statuses)
                     then or_now now_arg clock - active_started_at a else 0))"
  using assms
  by (simp add: get_total_duration_def fetch_sessions_def Let_def fold_span sum_list_sort_key
      split: option.splits)

lemma close_session_active:
  "active_sessions (snd (close_session ok key e t)) = (active_sessions t)(key := None)"
  by (auto simp: close_session_def complete_session_def Let_def split: option.splits sum.splits)

lemma close_session_key:
  "active_sessions (snd (close_session ok key e t)) key = None"
  by (simp add: close_session_active)

lemma close_session_key_dest:
  "close_session ok key e t = (r, t') \<Longrightarrow> active_sessions t' key = None"
  using close_session_key [of ok key e t] by simp

lemma open_session_key_dest:
  "open_session ok t g u a ts = (Inr (), t') \<Longrightarrow>
     \<exists>s. active_sessions t' (g, u) = Some s \<and> active_status s = a"
  by (auto simp: open_session_def split: sum.splits)

text \<open>The entry of the key after an update that returned.\<close>

lemma handle_presence_update_entry:
  assumes "handle_presence_update io clock t g u before_status after_status ts = (Inr (), t')"
  shows "case active_sessions t' (g, u) of
           None \<Rightarrow> \<not> is_tracked (normalize_status after_status)
         | Some a \<Rightarrow> is_tracked (normalize_status after_status) \<and>
                     active_status a = normalize_status after_status"
  using assms
  unfolding handle_presence_update_def Let_def
  by (auto simp: close_session_key split: if_splits option.splits sum.splits
      dest!: close_session_key_dest open_session_key_dest)

text \<open>An update whose target status the entry of the key already reflects does nothing.\<close>

lemma handle_presence_update_settled:
  assumes "case active_sessions t (g, u) of
             None \<Rightarrow> \<not> is_tracked (normalize_status after_status)
           | Some a \<Rightarrow> is_tracked (normalize_status after_status) \<and>
                       active_status a = normalize_status after_status"
  shows "handle_presence_update io clock t g u before_status after_status ts = (Inr (), t)"
proof (cases "active_sessions t (g, u)")
  case None
  with assms show ?thesis
    by (simp add: handle_presence_update_def Let_def)
next
  case (Some a)
  with assms show ?thesis
    by (simp add: handle_presence_update_def Let_def)
qed

lemma normalize_statuses_tracked:
  "set (normalize_statuses statuses) \<subseteq> set TRACKED_STATUSES"
  by (auto simp: normalize_statuses_def Let_def is_tracked_def split: option.splits)

lemma normalize_statuses_kept:
  assumes "\<exists>s\<in>set sts. is_tracked (normalize_status s)"
  shows "normalize_statuses (Some sts) = filter is_tracked (map normalize_status sts)"
proof -
  from assms have "filter is_tracked (map normalize_status sts) \<noteq> []"
    by (auto simp: filter_empty_conv)
  then show ?thesis
    by (simp add: normalize_statuses_def Let_def)
qed

lemma normalize_statuses_fallback:
  assumes "\<forall>s\<in>set sts. \<not> is_tracked (normalize_status s)"
  shows "normalize_statuses (Some sts) = TRACKED_STATUSES"
proof -
  from assms have "filter is_tracked (map normalize_status sts) = []"
    by (auto simp: filter_empty_conv)
  then show ?thesis
    by (simp add: normalize_statuses_def Let_def)
qed

text \<open>A query reads its status filter only through \<open>normalize_statuses\<close>.\<close>

lemma get_total_duration_filter_cong:
  assumes "normalize_statuses f1 = normalize_statuses f2"
  shows "get_total_duration ok clock t g u f1 now_arg = get_total_duration ok clock t g u f2 now_arg"
  using assms by (simp add: get_total_duration_def)

lemma selected_only_statuses:
  "(status r \<in> set sts \<and> selected g u sts r) = selected g u sts r"
  by (auto simp: selected_def)

lemma get_total_duration_only_statuses:
  "get_total_duration ok clock (only_statuses (set (normalize_statuses statuses)) t) g u statuses now_arg =
   get_total_duration ok clock t g u statuses now_arg"
proof (cases "presence_sessions (database t)")
  case None
  then show ?thesis
    by (simp add: get_total_duration_def fetch_sessions_def only_statuses_def Let_def)
next
  case (Some rows)
  then show ?thesis
    by (simp add: get_total_duration_def fetch_sessions_def only_statuses_def Let_def
        selected_only_statuses split: option.splits)
qed

text \<open>A closed row of the key adds its length to the query, whatever else the tracker holds.\<close>

lemma row_contribution:
  assumes rows: "presence_sessions (database t) = Some (xs @ r # ys)"
      and closed: "ended_at r = Some e"
      and sel: "selected g u (normalize_statuses statuses) r"
  shows "\<exists>d. get_total_duration True clock (with_rows (xs @ ys) t) g u statuses now_arg = Inr d
           \<and> get_total_duration True clock t g u statuses now_arg = Inr (d + (e - started_at r))"
proof -
  let ?sel = "selected g u (normalize_statuses statuses)"
  let ?span = "session_span (or_now now_arg clock)"
  let ?entry = "case active_sessions t (g, u) of
                  None \<Rightarrow> 0
                | Some a \<Rightarrow> if active_status a \<in> set (normalize_statuses statuses)
                           then or_now now_arg clock - active_started_at a else 0"
  let ?d = "sum_list (map ?span (filter ?sel (xs @ ys))) + ?entry"
  have "presence_sessions (database (with_rows (xs @ ys) t)) = Some (xs @ ys)"
    by (simp add: with_rows_def)
  from get_total_duration_rows [OF this, of clock g u statuses now_arg]
  have without: "get_total_duration True clock (with_rows (xs @ ys) t) g u statuses now_arg = Inr ?d"
    by (simp add: with_rows_def)
  have "?span r = e - started_at r"
    using closed by (simp add: session_span_def)
  then have "sum_list (map ?span (filter ?sel (xs @ r # ys))) =
      sum_list (map ?span (filter ?sel (xs @ ys))) + (e - started_at r)"
    using sel by simp
  with get_total_duration_rows [OF rows, of clock g u statuses now_arg]
  have "get_total_duration True clock t g u statuses now_arg = Inr (?d + (e - started_at r))"
    by simp
  with without show ?thesis
    by blast
qed

lemma max_rowid_ge: "r \<in> set rows \<Longrightarrow> row_id r \<le> max_rowid rows"
  by (induction rows) auto

lemma close_session_keeps_row:
  assumes "keeps_row r t"
  shows "keeps_row r (snd (close_session ok key e t))"
proof (cases "active_sessions t key")
  case None
  with assms show ?thesis
    by (simp add: close_session_def)
next
  case (Some session)
  from assms obtain xs ys where rows: "presence_sessions (database t) = Some (xs @ r # ys)"
    and ids: "\<And>k a. active_sessions t k = Some a \<Longrightarrow> active_row_id a \<noteq> row_id r"
    by (auto simp: keeps_row_def)
  from ids [OF Some] have same: "complete_row (active_row_id session) e r = r"
    by (simp add: complete_row_def)
  show ?thesis
  proof (cases ok)
    case True
    have "presence_sessions (database (snd (close_session ok key e t))) =
        Some (map (complete_row (active_row_id session) e) xs @ r #
              map (complete_row (active_row_id session) e) ys)"
      using Some rows True by (simp add: close_session_def complete_session_def same)
    moreover have "active_sessions (snd (close_session ok key e t)) = (active_sessions t)(key := None)"
      by (rule close_session_active)
    ultimately show ?thesis
      unfolding keeps_row_def using ids by (auto split: if_splits)
  next
    case False
    with Some have "snd (close_session ok key e t) = t\<lparr>active_sessions := (active_sessions t)(key := None)\<rparr>"
      by (simp add: close_session_def complete_session_def)
    with rows ids show ?thesis
      unfolding keeps_row_def by (auto split: if_splits)
  qed
qed

lemma open_session_keeps_row:
  assumes "keeps_row r t"
  shows "keeps_row r (snd (open_session ok t g u a ts))"
proof (cases ok)
  case False
  with assms show ?thesis
    by (simp add: open_session_def insert_session_def)
next
  case True
  from assms obtain xs ys where rows: "presence_sessions (database t) = Some (xs @ r # ys)"
    and ids: "\<And>k s. active_sessions t k = Some s \<Longrightarrow> active_row_id s \<noteq> row_id r"
    by (auto simp: keeps_row_def)
  let ?new = "max (sqlite_sequence (database t)) (max_rowid (xs @ r # ys)) + 1"
  have "row_id r \<le> max_rowid (xs @ r # ys)"
    by (rule max_rowid_ge) simp
  then have fresh: "?new \<noteq> row_id r"
    by simp
  let ?t' = "snd (open_session ok t g u a ts)"
  have "presence_sessions (database ?t') =
      Some (xs @ r # (ys @ [\<lparr>row_id = ?new, guild_id = g, user_id = u, status = a,
                              started_at = ts, ended_at = None\<rparr>]))"
    using rows True by (simp add: open_session_def insert_session_def Let_def)
  moreover have "active_sessions ?t' =
      (active_sessions t)((g, u) \<mapsto> \<lparr>active_row_id = ?new, active_started_at = ts, active_status = a\<rparr>)"
    using rows True by (simp add: open_session_def insert_session_def Let_def)
  ultimately show ?thesis
    unfolding keeps_row_def using ids fresh by (auto split: if_splits)
qed

lemma handle_presence_update_keeps_row:
  assumes "keeps_row r t"
  shows "keeps_row r (snd (handle_presence_update io clock t g u before_status after_status ts))"
  using assms
  unfolding handle_presence_update_def Let_def
  by (auto split: option.splits sum.splits
      intro!: close_session_keeps_row open_session_keeps_row)

lemma bootstrap_member_keeps_row:
  assumes "keeps_row r t"
  shows "keeps_row r (snd (bootstrap_member io clock t g u st))"
  using assms
  unfolding bootstrap_member_def Let_def
  by (auto intro!: open_session_keeps_row)

lemma deliver_keeps_row:
  assumes "keeps_row r t"
  shows "keeps_row r (snd (deliver d t))"
proof -
  obtain io clock ev where d: "d = (io, clock, ev)"
    by (cases d) auto
  show ?thesis
    using assms
    by (cases ev)
      (simp_all add: d deliver_def handle_presence_update_keeps_row bootstrap_member_keeps_row)
qed

lemma run_keeps_row:
  assumes "keeps_row r t"
  shows "keeps_row r (run ds t)"
  using assms
  by (induction ds arbitrary: t) (simp_all add: deliver_keeps_row)

section \<open>Properties of the tracker\<close>

text \<open>
  C1 (no double counting in \<open>get_total_duration\<close>) fails on the code. In \<open>member_online\<close>
  the member has one session, opened at 100: one open row in the store and its entry in the
  map. A query at 3700 fetches the open row and counts 3700 - 100 for it, then counts the
  same 3600 again for the entry of the map, and returns 7200.
\<close>

theorem get_total_duration_counts_open_session_twice:
  "presence_sessions (database member_online) =
     Some [\<lparr>row_id = 1, guild_id = 1, user_id = 42, status = ''online'',
            started_at = 100, ended_at = None\<rparr>]
   \<and> active_sessions member_online (1, 42) =
       Some \<lparr>active_row_id = 1, active_started_at = 100, active_status = ''online''\<rparr>
   \<and> get_total_duration True 0 member_online 1 42 None (Some 3700) = Inr 7200"
  by (simp add: member_online_eq get_total_duration_rows normalize_statuses_def
      TRACKED_STATUSES_def selected_def session_span_def or_now_def)

text \<open>
  C2 (at most one open row per key between calls) fails on the code. After \<open>member_online\<close>,
  the update from offline to idle returns normally, opens the idle session and leaves the
  online row open: the key has two open rows.
\<close>

theorem missed_before_leaves_two_open_rows:
  "fst missed_before = Inr ()
   \<and> open_rows (database (snd missed_before)) 1 42 =
       [\<lparr>row_id = 1, guild_id = 1, user_id = 42, status = ''online'',
         started_at = 100, ended_at = None\<rparr>,
        \<lparr>row_id = 2, guild_id = 1, user_id = 42, status = ''idle'',
         started_at = 200, ended_at = None\<rparr>]"
  by (simp add: missed_before_eq open_rows_def table_def)

text \<open>
  C3 (a store failure is surfaced before the map is updated) fails on the code. In
  \<open>failed_close\<close> the store call of the closing update raises: the update raises, the
  entry of the key is gone from the map, and its row is still open in the store.
\<close>

theorem failed_close_drops_entry_keeps_row_open:
  "active_sessions member_online (1, 42) =
     Some \<lparr>active_row_id = 1, active_started_at = 100, active_status = ''online''\<rparr>
   \<and> fst failed_close = Inl StoreUnavailable
   \<and> active_sessions (snd failed_close) (1, 42) = None
   \<and> open_rows (database (snd failed_close)) 1 42 =
       [\<lparr>row_id = 1, guild_id = 1, user_id = 42, status = ''online'',
         started_at = 100, ended_at = None\<rparr>]"
  by (simp add: member_online_eq failed_close_eq open_rows_def table_def)




text \<open>
  C5 (round trip): when an update that leaves the tracked statuses has returned and every
  row of the key in the store is closed, a query that reaches the store returns the sum,
  over the rows of the key whose status is in the normalised filter, of the close timestamp
  minus the start timestamp, whatever the time of the query.
\<close>

theorem get_total_duration_after_close:
  assumes run: "handle_presence_update io clock t guild user before_status after_status timestamp_arg =
                  (Inr (), t')"
      and leaves: "\<not> is_tracked (normalize_status after_status)"
      and rows: "presence_sessions (database t') = Some rows"
      and closed: "open_rows (database t') guild user = []"
  shows "get_total_duration True clock' t' guild user statuses now_arg =
           Inr (sum_list (map closed_span
                  (filter (selected guild user (normalize_statuses statuses)) rows)))"
proof -
  from handle_presence_update_entry [OF run] leaves
  have no_entry: "active_sessions t' (guild, user) = None"
    by (cases "active_sessions t' (guild, user)") simp_all
  have span: "session_span now r = closed_span r"
    if "r \<in> set (filter (selected guild user (normalize_statuses statuses)) rows)" for r now
  proof -
    from that have "r \<in> set rows" "guild_id r = guild" "user_id r = user"
      by (simp_all add: selected_def)
    with closed rows have "ended_at r \<noteq> None"
      by (auto simp: open_rows_def table_def filter_empty_conv)
    then show ?thesis
      by (auto simp: session_span_def closed_span_def)
  qed
  have "map (session_span (or_now now_arg clock'))
          (filter (selected guild user (normalize_statuses statuses)) rows) =
        map closed_span (filter (selected guild user (normalize_statuses statuses)) rows)"
    by (rule map_cong [OF refl]) (rule span)
  with get_total_duration_rows [OF rows, of clock' guild user statuses now_arg] no_entry
  show ?thesis by simp
qed

theorem get_total_duration_after_close_witness:
  "get_total_duration True 0 member_offline 1 42 None (Some 20000) = Inr 10800"
proof -
  have run: "handle_presence_update [] 0 member_idle 1 42 (PyObject ''idle'')
               (PyObject ''offline'') (Some 10900) = (Inr (), member_offline)"
    by (simp add: member_offline_run member_offline_eq)
  have leaves: "\<not> is_tracked (normalize_status (PyObject ''offline''))"
    by (simp add: normalize_labels tracked_labels)
  have rows: "presence_sessions (database member_offline) =
      Some [\<lparr>row_id = 1, guild_id = 1, user_id = 42, status = ''online'',
             started_at = 100, ended_at = Some 7300\<rparr>,
            \<lparr>row_id = 2, guild_id = 1, user_id = 42, status = ''idle'',
             started_at = 7300, ended_at = Some 10900\<rparr>]"
    by (simp add: member_offline_eq)
  have closed: "open_rows (database member_offline) 1 42 = []"
    by (simp add: member_offline_eq open_rows_def table_def)
  from get_total_duration_after_close [OF run leaves rows closed, of 0 None "Some 20000"]
  show ?thesis
    by (simp add: normalize_statuses_def TRACKED_STATUSES_def selected_def closed_span_def)
qed

text \<open>
  C6 (idempotence): when an update with before = after = s has returned, the same update
  again, at any time and whatever the store would answer, returns and leaves the tracker
  (the store and the in-memory map) as it was.
\<close>

theorem handle_presence_update_idempotent:
  assumes "handle_presence_update io clock t guild user s s timestamp_arg = (Inr (), t1)"
  shows "handle_presence_update io' clock' t1 guild user s s timestamp_arg' = (Inr (), t1)"
  by (rule handle_presence_update_settled) (rule handle_presence_update_entry [OF assms])

theorem handle_presence_update_idempotent_witness:
  "handle_presence_update [False] 5 member_online 1 42
     (PyObject ''online'') (PyObject ''online'') None = (Inr (), member_online)"
proof -
  have "handle_presence_update [] 0 booted 1 42 (PyObject ''online'') (PyObject ''online'')
          (Some 100) = (Inr (), member_online)"
    by (simp add: member_online_eq booted_eq tracker_defs store_defs normalize_labels
        tracked_labels)
  then show ?thesis
    by (rule handle_presence_update_idempotent)
qed

text \<open>
  C7 (startup recovery): let the store hold an open row \<open>r\<close>, and let a tracker be built
  on it (its map is empty). When both store calls of \<^verbatim>\<open>setup()\<close> commit, \<^verbatim>\<open>setup()\<close>
  returns and the row stands in the store closed at the setup timestamp. After any sequence
  of member snapshots and presence changes handled since, whatever their outcome, the row
  still stands there closed at the setup timestamp, and a query for the key of the row with
  a filter that includes its status returns exactly \<open>setup_time - started_at\<close> more than
  it returns with that row taken out of the store.
\<close>

theorem setup_closes_stale_row:
  assumes rows: "presence_sessions db = Some (xs @ r # ys)"
      and stale: "ended_at r = None"
      and commits: "io_ok io" "io_ok (io_rest io)"
      and included: "status r \<in> set (normalize_statuses statuses)"
  shows "\<exists>t'. tracker_setup io setup_time (new_tracker db) = (Inr (), t')
         \<and> presence_sessions (database t') =
             Some (map (close_row setup_time) xs @ r\<lparr>ended_at := Some setup_time\<rparr>
                     # map (close_row setup_time) ys)
         \<and> (\<forall>events. \<exists>xs' ys' d.
               presence_sessions (database (run events t')) =
                 Some (xs' @ r\<lparr>ended_at := Some setup_time\<rparr> # ys')
             \<and> get_total_duration True clock (with_rows (xs' @ ys') (run events t'))
                 (guild_id r) (user_id r) statuses now_arg = Inr d
             \<and> get_total_duration True clock (run events t')
                 (guild_id r) (user_id r) statuses now_arg = Inr (d + (setup_time - started_at r)))"
proof -
  let ?closed = "map (close_row setup_time)"
  let ?r' = "r\<lparr>ended_at := Some setup_time\<rparr>"
  let ?t' = "(new_tracker db)\<lparr>database := db\<lparr>presence_sessions := Some (?closed (xs @ r # ys))\<rparr>\<rparr>"
  have run: "tracker_setup io setup_time (new_tracker db) = (Inr (), ?t')"
    using rows commits
    by (simp add: tracker_setup_def initialize_def close_open_sessions_def new_tracker_def)
  have row: "close_row setup_time r = ?r'"
    using stale by (simp add: close_row_def)
  have table: "presence_sessions (database ?t') = Some (?closed xs @ ?r' # ?closed ys)"
    by (simp add: row)
  have "active_sessions ?t' key = None" for key
    by (simp add: new_tracker_def)
  with table have start: "keeps_row ?r' ?t'"
    unfolding keeps_row_def by (metis option.distinct(1))
  have sel: "selected (guild_id r) (user_id r) (normalize_statuses statuses) ?r'"
    using included by (simp add: selected_def)
  have later: "\<exists>xs' ys' d.
        presence_sessions (database (run events ?t')) = Some (xs' @ ?r' # ys')
      \<and> get_total_duration True clock (with_rows (xs' @ ys') (run events ?t'))
          (guild_id r) (user_id r) statuses now_arg = Inr d
      \<and> get_total_duration True clock (run events ?t')
          (guild_id r) (user_id r) statuses now_arg = Inr (d + (setup_time - started_at r))"
    for events
  proof -
    from run_keeps_row [OF start, of events]
    obtain xs' ys' where
      there: "presence_sessions (database (run events ?t')) = Some (xs' @ ?r' # ys')"
      by (auto simp: keeps_row_def)
    have "ended_at ?r' = Some setup_time"
      by simp
    from row_contribution [OF there this sel, of clock now_arg] there
    show ?thesis
      by auto
  qed
  from run table later show ?thesis
    by blast
qed

theorem setup_closes_stale_row_witness:
  "\<exists>t' d. tracker_setup [] 500 (new_tracker (database member_online)) = (Inr (), t')
       \<and> presence_sessions (database t') =
           Some [\<lparr>row_id = 1, guild_id = 1, user_id = 42, status = ''online'',
                  started_at = 100, ended_at = Some 500\<rparr>]
       \<and> get_total_duration True 0
            (run [([], 0, Update 1 42 (PyObject ''offline'') (PyObject ''online'') (Some 600)),
                  ([], 0, Update 1 42 (PyObject ''online'') (PyObject ''offline'') (Some 700))] t')
            1 42 None (Some 900) = Inr (d + (500 - 100))
       \<and> get_total_duration True 0 t' 1 42 None (Some 900) = Inr 400"
proof -
  let ?r = "\<lparr>row_id = 1, guild_id = 1, user_id = 42, status = ''online'',
             started_at = 100, ended_at = None\<rparr>"
  let ?events = "[([], 0, Update 1 42 (PyObject ''offline'') (PyObject ''online'') (Some 600)),
                  ([], 0, Update 1 42 (PyObject ''online'') (PyObject ''offline'') (Some 700))]"
  have rows: "presence_sessions (database member_online) = Some ([] @ ?r # [])"
    by (simp add: member_online_eq)
  have stale: "ended_at ?r = None"
    by simp
  have commits: "io_ok []" "io_ok (io_rest [])"
    by (simp_all add: io_ok_def io_rest_def)
  have included: "status ?r \<in> set (normalize_statuses None)"
    by (simp add: normalize_statuses_def TRACKED_STATUSES_def)
  from setup_closes_stale_row [OF rows stale commits included, of 500 0 "Some 900"]
  obtain t' where
    run: "tracker_setup [] 500 (new_tracker (database member_online)) = (Inr (), t')" and
    table: "presence_sessions (database t') = Some [?r\<lparr>ended_at := Some 500\<rparr>]" and
    later: "\<And>events. \<exists>xs' ys' d.
        presence_sessions (database (run events t')) = Some (xs' @ ?r\<lparr>ended_at := Some 500\<rparr> # ys')
      \<and> get_total_duration True 0 (with_rows (xs' @ ys') (run events t')) 1 42 None (Some 900) = Inr d
      \<and> get_total_duration True 0 (run events t') 1 42 None (Some 900) = Inr (d + (500 - 100))"
    by auto
  from later [of ?events] obtain d where
    after: "get_total_duration True 0 (run ?events t') 1 42 None (Some 900) = Inr (d + (500 - 100))"
    by blast
  from run have "active_sessions t' (1, 42) = None"
    by (auto simp: tracker_defs store_defs member_online_eq)
  with get_total_duration_rows [OF table, of 0 1 42 None "Some 900"]
  have "get_total_duration True 0 t' 1 42 None (Some 900) = Inr 400"
    by (simp add: normalize_statuses_def TRACKED_STATUSES_def selected_def session_span_def
        or_now_def)
  with run table after show ?thesis
    by auto
qed

text \<open>
  C8 (status filter): a query whose filter is a nonempty list of tracked statuses uses that
  list as it is and returns what it returns once every session of another status, in the
  store and in the map, has been taken away. A query whose filter has no tracked status
  (the empty one included) is the query with no filter, over the full tracked set, and it
  returns a duration whenever the store answers.
\<close>

theorem status_filter_semantics:
  "(sts \<noteq> [] \<and> (\<forall>s\<in>set sts. is_tracked (normalize_status s)) \<longrightarrow>
      normalize_statuses (Some sts) = map normalize_status sts
    \<and> get_total_duration ok clock t guild user (Some sts) now_arg =
      get_total_duration ok clock (only_statuses (set (map normalize_status sts)) t)
        guild user (Some sts) now_arg)
   \<and> ((\<forall>s\<in>set sts. \<not> is_tracked (normalize_status s)) \<longrightarrow>
      normalize_statuses (Some sts) = [''online'', ''idle'', ''dnd'']
    \<and> get_total_duration ok clock t guild user (Some sts) now_arg =
      get_total_duration ok clock t guild user None now_arg
    \<and> (presence_sessions (database t) \<noteq> None \<longrightarrow>
         (\<exists>d. get_total_duration True clock t guild user (Some sts) now_arg = Inr d)))"
proof (intro conjI impI)
  assume tracked: "sts \<noteq> [] \<and> (\<forall>s\<in>set sts. is_tracked (normalize_status s))"
  then have "\<exists>s\<in>set sts. is_tracked (normalize_status s)"
    by (cases sts) auto
  then have "normalize_statuses (Some sts) = filter is_tracked (map normalize_status sts)"
    by (rule normalize_statuses_kept)
  also from tracked have "\<dots> = map normalize_status sts"
    by (simp add: filter_id_conv)
  finally show kept: "normalize_statuses (Some sts) = map normalize_status sts" .
  show "get_total_duration ok clock t guild user (Some sts) now_arg =
      get_total_duration ok clock (only_statuses (set (map normalize_status sts)) t)
        guild user (Some sts) now_arg"
    using get_total_duration_only_statuses [of ok clock "Some sts" t guild user now_arg]
    by (simp only: kept)
next
  assume untracked: "\<forall>s\<in>set sts. \<not> is_tracked (normalize_status s)"
  then have fallback: "normalize_statuses (Some sts) = TRACKED_STATUSES"
    by (rule normalize_statuses_fallback)
  then show "normalize_statuses (Some sts) = [''online'', ''idle'', ''dnd'']"
    by (simp add: TRACKED_STATUSES_def)
  from fallback have "normalize_statuses (Some sts) = normalize_statuses None"
    by (simp add: normalize_statuses_def)
  then show "get_total_duration ok clock t guild user (Some sts) now_arg =
      get_total_duration ok clock t guild user None now_arg"
    by (rule get_total_duration_filter_cong)
  assume "presence_sessions (database t) \<noteq> None"
  then obtain rows where "presence_sessions (database t) = Some rows"
    by auto
  from get_total_duration_rows [OF this]
  show "\<exists>d. get_total_duration True clock t guild user (Some sts) now_arg = Inr d"
    by blast
qed

theorem status_filter_semantics_witness:
  "get_total_duration True 0 member_idle 1 42 (Some [PyObject ''online'']) (Some 20000) = Inr 7200
   \<and> get_total_duration True 0 member_offline 1 42 (Some [PyObject ''streaming'']) (Some 20000) =
       Inr 10800
   \<and> get_total_duration True 0 member_offline 1 42 (Some []) (Some 20000) = Inr 10800"
proof -
  have tracked: "[PyObject ''online''] \<noteq> [] \<and>
      (\<forall>s\<in>set [PyObject ''online'']. is_tracked (normalize_status s))"
    by (simp add: normalize_labels tracked_labels)
  have only: "only_statuses {''online''} member_idle =
      \<lparr>database =
         \<lparr>presence_sessions =
            Some [\<lparr>row_id = 1, guild_id = 1, user_id = 42, status = ''online'',
                   started_at = 100, ended_at = Some 7300\<rparr>],
          sqlite_sequence = 2\<rparr>,
       active_sessions = Map.empty\<rparr>"
    by (auto simp: only_statuses_def member_idle_eq)
  have "get_total_duration True 0 member_idle 1 42 (Some [PyObject ''online'']) (Some 20000) =
      get_total_duration True 0 (only_statuses (set (map normalize_status [PyObject ''online'']))
        member_idle) 1 42 (Some [PyObject ''online'']) (Some 20000)"
    using status_filter_semantics [of "[PyObject ''online'']" True 0 member_idle 1 42 "Some 20000"]
      tracked by blast
  also have "\<dots> = Inr 7200"
    by (simp add: only get_total_duration_rows normalize_statuses_def normalize_labels
        tracked_labels selected_def session_span_def or_now_def)
  finally have first: "get_total_duration True 0 member_idle 1 42 (Some [PyObject ''online''])
      (Some 20000) = Inr 7200" .
  have total: "get_total_duration True 0 member_offline 1 42 None (Some 20000) = Inr 10800"
    by (simp add: member_offline_eq get_total_duration_rows normalize_statuses_def
        TRACKED_STATUSES_def selected_def session_span_def or_now_def)
  have untracked: "\<forall>s\<in>set [PyObject ''streaming'']. \<not> is_tracked (normalize_status s)"
    by (simp add: normalize_labels tracked_labels)
  have "get_total_duration True 0 member_offline 1 42 (Some [PyObject ''streaming'']) (Some 20000) =
      get_total_duration True 0 member_offline 1 42 None (Some 20000)"
    using status_filter_semantics [of "[PyObject ''streaming'']" True 0 member_offline 1 42
        "Some 20000"] untracked by blast
  with total have second: "get_total_duration True 0 member_offline 1 42
      (Some [PyObject ''streaming'']) (Some 20000) = Inr 10800"
    by simp
  have "get_total_duration True 0 member_offline 1 42 (Some []) (Some 20000) =
      get_total_duration True 0 member_offline 1 42 None (Some 20000)"
    using status_filter_semantics [of "[]" True 0 member_offline 1 42 "Some 20000"] by simp
  with total have third: "get_total_duration True 0 member_offline 1 42 (Some []) (Some 20000) =
      Inr 10800"
    by simp
  from first second third show ?thesis
    by blast
qed

text \<open>
  C9 (post-state of a transition): after an update that returned, the key is in the
  in-memory map exactly when the normalised after-status is tracked, and the session stored
  for it then carries the normalised after-status.
\<close>

theorem handle_presence_update_post_state:
  assumes "handle_presence_update io clock t guild user before_status after_status timestamp_arg =
             (Inr (), t')"
  shows "((guild, user) \<in> dom (active_sessions t')) = is_tracked (normalize_status after_status)
       \<and> (\<forall>a. active_sessions t' (guild, user) = Some a \<longrightarrow>
              active_status a = normalize_status after_status)"
proof (cases "active_sessions t' (guild, user)")
  case None
  with handle_presence_update_entry [OF assms] show ?thesis
    by (simp add: dom_def)
next
  case (Some a)
  with handle_presence_update_entry [OF assms] show ?thesis
    by (simp add: dom_def)
qed

theorem handle_presence_update_post_state_witness:
  "(1, 42) \<in> dom (active_sessions member_idle)
   \<and> active_sessions member_idle (1, 42) =
       Some \<lparr>active_row_id = 2, active_started_at = 7300, active_status = ''idle''\<rparr>
   \<and> (1, 42) \<notin> dom (active_sessions member_offline)"
proof -
  have idle: "handle_presence_update [] 0 member_online 1 42 (PyObject ''online'')
      (PyObject ''idle'') (Some 7300) = (Inr (), member_idle)"
    by (simp add: member_idle_run member_idle_eq)
  have offline: "handle_presence_update [] 0 member_idle 1 42 (PyObject ''idle'')
      (PyObject ''offline'') (Some 10900) = (Inr (), member_offline)"
    by (simp add: member_offline_run member_offline_eq)
  from handle_presence_update_post_state [OF idle]
  have "(1, 42) \<in> dom (active_sessions member_idle)"
    by (simp add: normalize_labels tracked_labels)
  moreover from handle_presence_update_post_state [OF offline]
  have "(1, 42) \<notin> dom (active_sessions member_offline)"
    by (simp add: normalize_labels tracked_labels)
  moreover have "active_sessions member_idle (1, 42) =
      Some \<lparr>active_row_id = 2, active_started_at = 7300, active_status = ''idle''\<rparr>"
    by (simp add: member_idle_eq)
  ultimately show ?thesis
    by blast
qed



end
